theory Spec2Isabelle
  imports Complex_Main "HOL-Library.Sublist"
begin

section \<open>JavaScript strings\<close>

text \<open>
  A JavaScript string is a sequence of UTF-16 code units and \<^verbatim>\<open>.length\<close> counts them.
  The model uses \<^typ>\<open>string\<close>: every \<^typ>\<open>char\<close> stands for one code unit in the
  range 0..255, so \<^const>\<open>length\<close> is \<^verbatim>\<open>.length\<close> on these strings.

  \<^verbatim>\<open>String.prototype.trim\<close> and the regular-expression class \<^verbatim>\<open>\s\<close> use the same
  set: WhiteSpace and LineTerminator. Below 256 these are TAB, LF, VT, FF, CR, SPACE and
  NO-BREAK SPACE.
\<close>

definition isWhiteSpace :: "char \<Rightarrow> bool" where
  "isWhiteSpace c \<longleftrightarrow> (of_char c :: nat) \<in> {9, 10, 11, 12, 13, 32, 160}"

definition trim :: "string \<Rightarrow> string" where
  "trim s = rev (dropWhile isWhiteSpace (rev (dropWhile isWhiteSpace s)))"

text \<open>
  \<^verbatim>\<open>String.prototype.toLowerCase\<close> on code units below 256: A..Z and the Latin-1
  capitals U+00C0..U+00DE (without the multiplication sign U+00D7) move up by 32.
\<close>

definition lowerChar :: "char \<Rightarrow> char" where
  "lowerChar c =
     (let n = (of_char c :: nat)
      in if (65 \<le> n \<and> n \<le> 90) \<or> (192 \<le> n \<and> n \<le> 222 \<and> n \<noteq> 215)
         then char_of (n + 32) else c)"

definition toLowerCase :: "string \<Rightarrow> string" where
  "toLowerCase s = map lowerChar s"

text \<open>\<^verbatim>\<open>s.includes(sub)\<close>: \<^verbatim>\<open>sub\<close> occurs in \<^verbatim>\<open>s\<close> as a contiguous run.\<close>

fun includes_str :: "string \<Rightarrow> string \<Rightarrow> bool" where
  "includes_str [] sub = (sub = [])"
| "includes_str (c # cs) sub = (prefix sub (c # cs) \<or> includes_str cs sub)"

text \<open>\<^verbatim>\<open>parts.join(sep)\<close> on an array of strings.\<close>

fun join :: "string \<Rightarrow> string list \<Rightarrow> string" where
  "join sep [] = []"
| "join sep [x] = x"
| "join sep (x # y # ys) = x @ sep @ join sep (y # ys)"

section \<open>Values produced by \<^verbatim>\<open>JSON.parse\<close>\<close>

text \<open>
  A JavaScript number is finite, one of the two infinities, or NaN. \<^verbatim>\<open>JSON.parse\<close>
  yields an infinity for a literal out of the double range (\<^verbatim>\<open>1e999\<close>).
  An object is the list of its own properties, one entry for each key.
\<close>

datatype jsnum = Num rat | PosInfinity | NegInfinity | NaN

datatype jsval =
    JNull
  | JBool bool
  | JNumber jsnum
  | JString string
  | JArray "jsval list"
  | JObject "(string \<times> jsval) list"

text \<open>The global \<^verbatim>\<open>isFinite\<close> on a number.\<close>

fun isFinite :: "jsnum \<Rightarrow> bool" where
  "isFinite (Num q) = True"
| "isFinite PosInfinity = False"
| "isFinite NegInfinity = False"
| "isFinite NaN = False"

text \<open>
  Truthiness (\<^verbatim>\<open>ToBoolean\<close>); \<open>None\<close> stands for \<^verbatim>\<open>undefined\<close>.
\<close>

fun truthy :: "jsval option \<Rightarrow> bool" where
  "truthy None = False"
| "truthy (Some JNull) = False"
| "truthy (Some (JBool b)) = b"
| "truthy (Some (JNumber (Num q))) = (q \<noteq> 0)"
| "truthy (Some (JNumber NaN)) = False"
| "truthy (Some (JNumber n)) = True"
| "truthy (Some (JString s)) = (s \<noteq> [])"
| "truthy (Some (JArray xs)) = True"
| "truthy (Some (JObject kvs)) = True"

text \<open>
  Property read \<^verbatim>\<open>v.k\<close> for the keys the program reads (\<^verbatim>\<open>items\<close>, \<^verbatim>\<open>type\<close>,
  \<^verbatim>\<open>length\<close>, \<^verbatim>\<open>name\<close>, \<^verbatim>\<open>value\<close>): an object gives its own property, an array
  and a string have \<^verbatim>\<open>length\<close>, everything else gives \<^verbatim>\<open>undefined\<close>.
  Reading a property of \<^verbatim>\<open>null\<close> throws; the program guards those reads with \<^verbatim>\<open>?.\<close>,
  which is \<open>optChain\<close>.
\<close>

fun getProp :: "jsval \<Rightarrow> string \<Rightarrow> jsval option" where
  "getProp (JObject kvs) k = map_of kvs k"
| "getProp (JArray xs) k = (if k = ''length'' then Some (JNumber (Num (of_nat (length xs)))) else None)"
| "getProp (JString s) k = (if k = ''length'' then Some (JNumber (Num (of_nat (length s)))) else None)"
| "getProp v k = None"

fun optChain :: "jsval option \<Rightarrow> string \<Rightarrow> jsval option" where
  "optChain None k = None"
| "optChain (Some JNull) k = None"
| "optChain (Some v) k = getProp v k"

section \<open>The embedded payload: \<^verbatim>\<open>/<data>([\s\S]*?)<\/data>/\<close>\<close>

text \<open>
  \<open>afterFirst pat s\<close> is the rest of \<open>s\<close> behind the leftmost occurrence of \<open>pat\<close>,
  \<open>beforeFirst pat s\<close> the part of \<open>s\<close> in front of it; \<open>None\<close> when \<open>pat\<close> does not occur.
\<close>

fun afterFirst :: "string \<Rightarrow> string \<Rightarrow> string option" where
  "afterFirst pat [] = (if pat = [] then Some [] else None)"
| "afterFirst pat (c # cs) =
     (if prefix pat (c # cs) then Some (drop (length pat) (c # cs)) else afterFirst pat cs)"

fun beforeFirst :: "string \<Rightarrow> string \<Rightarrow> string option" where
  "beforeFirst pat [] = (if pat = [] then Some [] else None)"
| "beforeFirst pat (c # cs) =
     (if prefix pat (c # cs) then Some [] else map_option ((#) c) (beforeFirst pat cs))"

text \<open>
  \<^verbatim>\<open>text.match(/<data>([\s\S]*?)<\/data>/)\<close>, then \<^verbatim>\<open>[1]\<close>: the first capture group, or
  \<open>None\<close> when the match is \<^verbatim>\<open>null\<close>. The expression has no \<^verbatim>\<open>g\<close> flag, so the
  engine returns the match with the leftmost start. A start is a position where
  \<^verbatim>\<open><data>\<close> stands; the lazy \<^verbatim>\<open>[\s\S]*?\<close> then takes as few code units as possible, up to
  the first \<^verbatim>\<open></data>\<close> behind the opening tag. When no closing tag follows the leftmost
  opening tag, none follows a later one, and there is no match.
\<close>

definition dataMatch :: "string \<Rightarrow> string option" where
  "dataMatch text =
     (case afterFirst ''<data>'' text of
        None \<Rightarrow> None
      | Some rest \<Rightarrow> beforeFirst ''</data>'' rest)"

text \<open>
  \<^verbatim>\<open>s.replace(/TAG\s*/g, "")\<close> for a literal, non-empty \<^verbatim>\<open>TAG\<close>: scanning from the left,
  every occurrence of the tag goes together with the whitespace run behind it, and the scan
  goes on behind the removed piece.
\<close>

function removeFence :: "string \<Rightarrow> string \<Rightarrow> string" where
  "removeFence tag [] = []"
| "removeFence tag (c # cs) =
     (if tag \<noteq> [] \<and> prefix tag (c # cs)
      then removeFence tag (dropWhile isWhiteSpace (drop (length tag) (c # cs)))
      else c # removeFence tag cs)"
  by pat_completeness auto
termination
proof (relation "measure (\<lambda>(tag, s). length s)")
  show "wf (measure (\<lambda>(tag, s). length s))" by simp
next
  fix tag :: string and c :: char and cs :: string
  assume "tag \<noteq> [] \<and> prefix tag (c # cs)"
  then have "length (drop (length tag) (c # cs)) < length (c # cs)"
    by (cases tag) simp_all
  moreover have "length (dropWhile isWhiteSpace (drop (length tag) (c # cs)))
      \<le> length (drop (length tag) (c # cs))"
    by (rule length_dropWhile_le)
  ultimately show "((tag, dropWhile isWhiteSpace (drop (length tag) (c # cs))), tag, c # cs)
      \<in> measure (\<lambda>(tag, s). length s)"
    by simp
next
  fix tag :: string and c :: char and cs :: string
  show "((tag, cs), tag, c # cs) \<in> measure (\<lambda>(tag, s). length s)" by simp
qed

text \<open>
  The cleaning both callers apply to the capture:
  \<^verbatim>\<open>.replace(/```json\s*/g, "").replace(/```\s*/g, "").trim()\<close>.
\<close>

definition cleanedJson :: "string \<Rightarrow> string" where
  "cleanedJson m = trim (removeFence ''```'' (removeFence ''```json'' m))"

section \<open>\<^verbatim>\<open>ChartSchema\<close> (actions.ts)\<close>

text \<open>
  \<^verbatim>\<open>z.object({name: z.string(), value: z.number().finite()})\<close>: the value is an object, its
  \<^verbatim>\<open>name\<close> is a string and its \<^verbatim>\<open>value\<close> a number that is neither NaN (refused by
  \<^verbatim>\<open>z.number()\<close>) nor infinite. Keys the schema does not name are ignored.
\<close>

fun ChartItemSchema :: "jsval \<Rightarrow> bool" where
  "ChartItemSchema (JObject kvs) =
     ((case map_of kvs ''name'' of Some (JString s) \<Rightarrow> True | _ \<Rightarrow> False) \<and>
      (case map_of kvs ''value'' of Some (JNumber n) \<Rightarrow> isFinite n | _ \<Rightarrow> False))"
| "ChartItemSchema v = False"

text \<open>
  \<^verbatim>\<open>ChartSchema.parse(v)\<close> returns (\<open>True\<close>) or throws (\<open>False\<close>):
  \<^verbatim>\<open>type: z.enum(['trend', 'sector', 'heatmap'])\<close>,
  \<^verbatim>\<open>items: z.array(item).min(1, ...)\<close>.
\<close>

fun ChartSchema :: "jsval \<Rightarrow> bool" where
  "ChartSchema (JObject kvs) =
     ((case map_of kvs ''type'' of
         Some (JString t) \<Rightarrow> t \<in> {''trend'', ''sector'', ''heatmap''}
       | _ \<Rightarrow> False) \<and>
      (case map_of kvs ''items'' of
         Some (JArray its) \<Rightarrow> list_all ChartItemSchema its \<and> 1 \<le> length its
       | _ \<Rightarrow> False))"
| "ChartSchema v = False"

section \<open>\<^verbatim>\<open>validateChartData\<close> (page.tsx)\<close>

text \<open>
  \<^verbatim>\<open>ChartData\<close> as the function builds it: \<^verbatim>\<open>type\<close> is \<^verbatim>\<open>data.type\<close> as parsed (the
  \<^verbatim>\<open>as\<close> cast does nothing at run time) and \<^verbatim>\<open>items\<close> are the parsed items that pass
  the filter.
\<close>

record ChartData =
  type :: jsval
  items :: "jsval list"

text \<open>
  The filter callback:
  \<^verbatim>\<open>item && typeof item === 'object' && 'name' in item && 'value' in item &&
  typeof item.value === 'number' && isFinite(item.value)\<close>.
  \<^verbatim>\<open>typeof\<close> is \<^verbatim>\<open>'object'\<close> for objects and arrays (and for \<^verbatim>\<open>null\<close>, which is falsy);
  an array has neither a \<^verbatim>\<open>name\<close> nor a \<^verbatim>\<open>value\<close> property.
\<close>

fun validItem :: "jsval \<Rightarrow> bool" where
  "validItem (JObject kvs) =
     (''name'' \<in> fst ` set kvs \<and> ''value'' \<in> fst ` set kvs \<and>
      (case map_of kvs ''value'' of Some (JNumber n) \<Rightarrow> isFinite n | _ \<Rightarrow> False))"
| "validItem v = False"

text \<open>
  The function takes \<^verbatim>\<open>JSON.parse\<close> as a parameter: \<open>parse s = None\<close> when
  \<^verbatim>\<open>JSON.parse(s)\<close> throws. Every exception inside the \<^verbatim>\<open>try\<close> block gives \<^verbatim>\<open>null\<close>
  (\<open>None\<close>), also the TypeError of \<^verbatim>\<open>data.items.filter\<close> when \<^verbatim>\<open>items\<close> is not an array.
\<close>

definition validateChartData :: "(string \<Rightarrow> jsval option) \<Rightarrow> string \<Rightarrow> ChartData option" where
  "validateChartData parse text =
     (case dataMatch text of
        None \<Rightarrow> None
      | Some m \<Rightarrow>
          if m = [] then None
          else (case parse (cleanedJson m) of
             None \<Rightarrow> None
           | Some data \<Rightarrow>
               if \<not> truthy (optChain (optChain (Some data) ''items'') ''length'')
                  \<or> \<not> truthy (getProp data ''type'')
               then None
               else (case (getProp data ''items'', getProp data ''type'') of
                  (Some (JArray its), Some t) \<Rightarrow>
                    (let validItems = filter validItem its
                     in if length validItems = 0 then None
                        else Some \<lparr>type = t, items = validItems\<rparr>)
                | _ \<Rightarrow> None)))"

section \<open>\<^verbatim>\<open>FinancialQuerySchema\<close> (actions.ts)\<close>

text \<open>
  \<^verbatim>\<open>z.string().min(3, m1).max(2000, m2).trim()\<close>. A Zod string schema keeps its checks in
  the order of the method calls and runs them in that order on the value: \<^verbatim>\<open>min\<close> and
  \<^verbatim>\<open>max\<close> compare \<^verbatim>\<open>.length\<close> of the value as it is when they run and add an issue
  with their message; \<^verbatim>\<open>trim\<close> replaces the value by its trimmed form. Here both length
  checks come before \<^verbatim>\<open>trim\<close>. \<^verbatim>\<open>safeParse\<close> fails with all issues (\<open>Inl\<close>), or
  succeeds with the transformed value (\<open>Inr\<close>).
\<close>

definition FinancialQuerySchema :: "string \<Rightarrow> string list + string" where
  "FinancialQuerySchema prompt =
     (let issues =
        (if length prompt < 3 then [''Query must contain at least 3 characters''] else []) @
        (if length prompt > 2000 then [''Query exceeds maximum length of 2000 characters''] else [])
      in if issues = [] then Inr (trim prompt) else Inl issues)"

section \<open>\<^verbatim>\<open>analyzeFinancialDataAction\<close> (actions.ts)\<close>

text \<open>
  The argument is a \<^verbatim>\<open>FormData\<close> or a string. \<^verbatim>\<open>formData.get("prompt")\<close> is the first
  entry of that name or \<^verbatim>\<open>null\<close>; an entry is a string or a \<^verbatim>\<open>File\<close>, whose
  \<^verbatim>\<open>toString()\<close> is \<^verbatim>\<open>[object File]\<close>.
\<close>

datatype FormDataEntryValue = FormString string | FormFile

datatype formInput = FormData "(string \<times> FormDataEntryValue) list" | PlainString string

fun rawPrompt :: "formInput \<Rightarrow> string" where
  "rawPrompt (PlainString s) = s"
| "rawPrompt (FormData entries) =
     (case map_of entries ''prompt'' of
        None \<Rightarrow> []
      | Some (FormString s) \<Rightarrow> s
      | Some FormFile \<Rightarrow> ''[object File]'')"

record TestCoverage =
  inputValidation :: bool
  apiResponse :: bool
  dataParsing :: bool

record ApiResponse =
  success :: bool
  data :: "string option"
  error :: "string option"
  testCoverage :: TestCoverage
  timestamp :: int
  requestId :: string

text \<open>
  What the function needs from outside: the environment variable, the identifier and the
  clock reading taken at the start, the outcome of the request to the model, and
  \<^verbatim>\<open>JSON.parse\<close>. The request is \<^verbatim>\<open>[qaSystemPrompt, `User Query: ${prompt}`]\<close>; the
  first element is a constant of the program, so \<open>generateContent\<close> is given the second.
  \<open>Throws msg\<close> is any exception between \<^verbatim>\<open>new GoogleGenerativeAI\<close> and
  \<^verbatim>\<open>response.text()\<close>, \<open>msg\<close> being the text the \<^verbatim>\<open>catch\<close> block derives from it;
  \<open>Responds t\<close> is the text returned.
\<close>

datatype completion = Throws string | Responds string

record world =
  GEMINI_API_KEY :: "string option"
  generateRequestId :: string
  Date_now :: int
  generateContent :: "string \<Rightarrow> completion"
  JSON_parse :: "string \<Rightarrow> jsval option"

text \<open>The console calls, each with the message it carries.\<close>

datatype consoleLine =
    ErrorMissingKey
  | WarnInputValidation string
  | WarnChartJson
  | InfoCompleted
  | ErrorFatal string

text \<open>
  The result: the value returned, the requests sent to the model in order, and the
  console lines written.
\<close>

record outcome =
  returned :: ApiResponse
  outbound :: "string list"
  console :: "consoleLine list"

text \<open>
  The chart check inside the \<^verbatim>\<open>try\<close> block:
  \<^verbatim>\<open>chartDataValid\<close> starts \<^verbatim>\<open>false\<close> and becomes \<^verbatim>\<open>true\<close> when the capture is
  non-empty, \<^verbatim>\<open>JSON.parse\<close> returns and \<^verbatim>\<open>ChartSchema.parse\<close> returns. The second
  component says whether the inner \<^verbatim>\<open>catch\<close> ran.
\<close>

definition chartDataCheck :: "(string \<Rightarrow> jsval option) \<Rightarrow> string \<Rightarrow> bool \<times> bool" where
  "chartDataCheck parse responseText =
     (case dataMatch responseText of
        None \<Rightarrow> (False, False)
      | Some m \<Rightarrow>
          if m = [] then (False, False)
          else (case parse (cleanedJson m) of
             None \<Rightarrow> (False, True)
           | Some parsedData \<Rightarrow>
               if ChartSchema parsedData then (True, False) else (False, True)))"

text \<open>
  The outer \<^verbatim>\<open>catch\<close> block: \<open>sent\<close> are the requests made before the exception,
  \<open>errorMessage\<close> is the message written to the console.
\<close>

definition serviceUnavailable :: "world \<Rightarrow> string list \<Rightarrow> string \<Rightarrow> outcome" where
  "serviceUnavailable w sent errorMessage =
     \<lparr>returned =
        \<lparr>success = False, data = None,
         error = Some ''Analysis service temporarily unavailable. Please try again.'',
         testCoverage = \<lparr>inputValidation = True, apiResponse = False, dataParsing = False\<rparr>,
         timestamp = Date_now w, requestId = generateRequestId w\<rparr>,
      outbound = sent,
      console = [ErrorFatal errorMessage]\<rparr>"

definition analyzeFinancialDataAction :: "world \<Rightarrow> formInput \<Rightarrow> outcome" where
  "analyzeFinancialDataAction w formData =
     (if GEMINI_API_KEY w = None \<or> GEMINI_API_KEY w = Some [] then
        \<lparr>returned =
           \<lparr>success = False, data = None,
            error = Some ''AI service configuration error. Please contact system administrator.'',
            testCoverage = \<lparr>inputValidation = False, apiResponse = False, dataParsing = False\<rparr>,
            timestamp = Date_now w, requestId = generateRequestId w\<rparr>,
         outbound = [],
         console = [ErrorMissingKey]\<rparr>
      else
        (case FinancialQuerySchema (rawPrompt formData) of
           Inl errors \<Rightarrow>
             (let errorMessage = join ''; '' errors
              in \<lparr>returned =
                    \<lparr>success = False, data = None,
                     error = Some (''Invalid input: '' @ errorMessage),
                     testCoverage =
                       \<lparr>inputValidation = True, apiResponse = False, dataParsing = False\<rparr>,
                     timestamp = Date_now w, requestId = generateRequestId w\<rparr>,
                  outbound = [],
                  console = [WarnInputValidation errorMessage]\<rparr>)
         | Inr prompt \<Rightarrow>
             (let request = ''User Query: '' @ prompt
              in case generateContent w request of
                   Throws msg \<Rightarrow> serviceUnavailable w [request] msg
                 | Responds responseText \<Rightarrow>
                     if responseText = [] \<or> length (trim responseText) = 0
                     then serviceUnavailable w [request]
                            ''Empty response received from AI service''
                     else
                       (let (chartDataValid, warned) =
                              chartDataCheck (JSON_parse w) responseText
                        in \<lparr>returned =
                              \<lparr>success = True, data = Some responseText, error = None,
                               testCoverage =
                                 \<lparr>inputValidation = True, apiResponse = True,
                                  dataParsing = chartDataValid\<rparr>,
                               timestamp = Date_now w, requestId = generateRequestId w\<rparr>,
                            outbound = [request],
                            console =
                              (if warned then [WarnChartJson] else []) @ [InfoCompleted]\<rparr>))))"

section \<open>The history of the dashboard (page.tsx)\<close>

record HistoryItem =
  item_id :: string
  query :: string
  response :: string
  item_timestamp :: int
  item_data :: "ChartData option"
  item_requestId :: "string option"

definition MAX_HISTORY_ITEMS :: nat where
  "MAX_HISTORY_ITEMS = 50"

text \<open>
  The updater \<^verbatim>\<open>handleSearch\<close> hands to \<^verbatim>\<open>setHistory\<close>:
  \<^verbatim>\<open>prev => [newItem, ...prev.slice(0, MAX_HISTORY_ITEMS - 1)]\<close>.
  \<^verbatim>\<open>setHistory\<close> passes it to the state setter of React, which applies an updater to
  the history it holds. The copy in \<^verbatim>\<open>localStorage\<close> is outside this model.
\<close>

definition appendHistory :: "HistoryItem \<Rightarrow> HistoryItem list \<Rightarrow> HistoryItem list" where
  "appendHistory newItem prev = newItem # take (MAX_HISTORY_ITEMS - 1) prev"

text \<open>The history after appending the items of a list one by one, the head first.\<close>

definition appendAll :: "HistoryItem list \<Rightarrow> HistoryItem list \<Rightarrow> HistoryItem list" where
  "appendAll newItems history = foldl (\<lambda>prev newItem. appendHistory newItem prev) history newItems"

text \<open>
  \<^verbatim>\<open>filteredHistory\<close>:
  \<^verbatim>\<open>history.filter(item => item.query.toLowerCase().includes(debouncedSearch.toLowerCase()))\<close>.
\<close>

definition filteredHistory :: "HistoryItem list \<Rightarrow> string \<Rightarrow> HistoryItem list" where
  "filteredHistory history debouncedSearch =
     filter (\<lambda>item. includes_str (toLowerCase (query item)) (toLowerCase debouncedSearch)) history"

section \<open>Sample data\<close>

text \<open>
  The values of \<^verbatim>\<open>JSON.parse\<close> on three documents, for the examples below. Any other
  text used with \<open>sampleParse\<close> in an example (\<^verbatim>\<open>{not json}\<close>) is not JSON, where
  \<^verbatim>\<open>JSON.parse\<close> throws.
\<close>

definition itemQ1 :: jsval where
  "itemQ1 = JObject [(''name'', JString ''Q1''), (''value'', JNumber (Num 10))]"

definition itemQ2 :: jsval where
  "itemQ2 = JObject [(''name'', JString ''Q2''), (''value'', JNumber (Num 12))]"

definition itemNoValue :: jsval where
  "itemNoValue = JObject [(''name'', JString ''Q2'')]"

definition trendDoc :: string where
  \<open>trendDoc = ''{"type":"trend","items":[{"name":"Q1","value":10},{"name":"Q2","value":12}]}''\<close>

definition partialDoc :: string where
  \<open>partialDoc = ''{"type":"trend","items":[{"name":"Q1","value":10},{"name":"Q2"}]}''\<close>

definition pieDoc :: string where
  \<open>pieDoc = ''{"type":"pie","items":[{"name":"Q1","value":10}]}''\<close>

definition sampleDocs :: "(string \<times> jsval) list" where
  "sampleDocs =
     [(trendDoc, JObject [(''type'', JString ''trend''), (''items'', JArray [itemQ1, itemQ2])]),
      (partialDoc, JObject [(''type'', JString ''trend''), (''items'', JArray [itemQ1, itemNoValue])]),
      (pieDoc, JObject [(''type'', JString ''pie''), (''items'', JArray [itemQ1])])]"

definition sampleParse :: "string \<Rightarrow> jsval option" where
  "sampleParse = map_of sampleDocs"

text \<open>A server with the key set, whose model call ends the given way.\<close>

definition sampleWorld :: "completion \<Rightarrow> world" where
  "sampleWorld reply =
     \<lparr>GEMINI_API_KEY = Some ''test-key'', generateRequestId = ''req_1_abc'', Date_now = 1,
      generateContent = (\<lambda>request. reply), JSON_parse = sampleParse\<rparr>"

definition sampleItem :: "nat \<Rightarrow> HistoryItem" where
  "sampleItem n =
     \<lparr>item_id = replicate n (CHR ''i''), query = ''Test NVDA'', response = ''ok'',
      item_timestamp = int n, item_data = None, item_requestId = None\<rparr>"

text \<open>The query \<^verbatim>\<open>abc\<close> followed by 1998 spaces.\<close>

definition paddedQuery :: string where
  "paddedQuery = ''abc'' @ replicate 1998 (CHR '' '')"

section \<open>Input validation\<close>

lemma FinancialQuerySchema_cases:
  "FinancialQuerySchema p =
     (if length p < 3 then Inl [''Query must contain at least 3 characters'']
      else if length p > 2000 then Inl [''Query exceeds maximum length of 2000 characters'']
      else Inr (trim p))"
  by (simp add: FinancialQuerySchema_def)

lemma trim_paddedQuery: "trim paddedQuery = ''abc''"
proof -
  have "dropWhile isWhiteSpace (replicate 1998 (CHR '' '') @ ''cba'') = ''cba''"
    by (simp add: dropWhile_append isWhiteSpace_def)
  then show ?thesis
    by (simp add: trim_def paddedQuery_def isWhiteSpace_def)
qed

lemma length_paddedQuery: "length paddedQuery = 2001"
  by (simp add: paddedQuery_def)

text \<open>
  C1. Claim: an input whose length after trimming is below 3 or above 2000 is refused with
  a message naming the length constraint, and an input whose trimmed length lies in
  [3, 2000] passes validation and is sent to the model.

  The schema measures the input before it trims it. Three spaces have trimmed length 0,
  pass validation, and the empty query goes to the model; \<^verbatim>\<open>abc\<close> followed by 1998 spaces
  has trimmed length 3 and is refused as too long.
\<close>

theorem length_checked_before_trim:
  "length (trim ''   '') = 0
   \<and> success (returned (analyzeFinancialDataAction (sampleWorld (Responds ''ok''))
        (PlainString ''   ''))) = True
   \<and> outbound (analyzeFinancialDataAction (sampleWorld (Responds ''ok''))
        (PlainString ''   '')) = [''User Query: '']
   \<and> length (trim paddedQuery) = 3
   \<and> error (returned (analyzeFinancialDataAction (sampleWorld (Responds ''ok''))
        (PlainString paddedQuery))) =
       Some ''Invalid input: Query exceeds maximum length of 2000 characters''
   \<and> outbound (analyzeFinancialDataAction (sampleWorld (Responds ''ok''))
        (PlainString paddedQuery)) = []"
proof -
  have t0: "trim ''   '' = []"
    by (simp add: trim_def isWhiteSpace_def)
  have tk: "trim ''ok'' = ''ok''"
    by (simp add: trim_def isWhiteSpace_def)
  have v0: "FinancialQuerySchema ''   '' = Inr []"
    by (simp add: FinancialQuerySchema_cases t0)
  have v1: "FinancialQuerySchema paddedQuery
      = Inl [''Query exceeds maximum length of 2000 characters'']"
    by (simp add: FinancialQuerySchema_cases length_paddedQuery)
  have c: "chartDataCheck sampleParse ''ok'' = (False, False)"
    by (simp add: chartDataCheck_def dataMatch_def)
  show ?thesis
    by (simp add: analyzeFinancialDataAction_def sampleWorld_def v0 v1 t0 tk c
        trim_paddedQuery Let_def)
qed

text \<open>
  C2 (as amended). When validation fails (the key being set), the function returns
  \<^verbatim>\<open>success:false\<close>, the error \<^verbatim>\<open>Invalid input: \<close> followed by the message of the violated
  constraint, and the flags \<^verbatim>\<open>inputValidation:true\<close>, \<^verbatim>\<open>apiResponse:false\<close>,
  \<^verbatim>\<open>dataParsing:false\<close>; nothing is sent to the model.
\<close>

theorem invalid_input_envelope:
  assumes key: "GEMINI_API_KEY w = Some apiKey" "apiKey \<noteq> []"
    and bad: "length (rawPrompt formData) < 3 \<or> 2000 < length (rawPrompt formData)"
  shows "returned (analyzeFinancialDataAction w formData) =
           \<lparr>success = False, data = None,
            error = Some (''Invalid input: '' @
              (if length (rawPrompt formData) < 3
               then ''Query must contain at least 3 characters''
               else ''Query exceeds maximum length of 2000 characters'')),
            testCoverage = \<lparr>inputValidation = True, apiResponse = False, dataParsing = False\<rparr>,
            timestamp = Date_now w, requestId = generateRequestId w\<rparr>
         \<and> outbound (analyzeFinancialDataAction w formData) = []"
  using assms
  by (auto simp: analyzeFinancialDataAction_def FinancialQuerySchema_cases Let_def)

theorem invalid_input_envelope_witness:
  "GEMINI_API_KEY (sampleWorld (Responds ''ok'')) = Some ''test-key''
   \<and> length (rawPrompt (PlainString ''ab'')) < 3
   \<and> returned (analyzeFinancialDataAction (sampleWorld (Responds ''ok'')) (PlainString ''ab'')) =
       \<lparr>success = False, data = None,
        error = Some ''Invalid input: Query must contain at least 3 characters'',
        testCoverage = \<lparr>inputValidation = True, apiResponse = False, dataParsing = False\<rparr>,
        timestamp = 1, requestId = ''req_1_abc''\<rparr>
   \<and> outbound (analyzeFinancialDataAction (sampleWorld (Responds ''ok'')) (PlainString ''ab'')) = []"
proof -
  have k: "GEMINI_API_KEY (sampleWorld (Responds ''ok'')) = Some ''test-key''"
    by (simp add: sampleWorld_def)
  have ne: "''test-key'' \<noteq> []" by simp
  have b: "length (rawPrompt (PlainString ''ab'')) < 3
      \<or> 2000 < length (rawPrompt (PlainString ''ab''))"
    by simp
  show ?thesis
    using invalid_input_envelope [OF k ne b] k by (simp add: sampleWorld_def)
qed

text \<open>
  The claim as first stated has \<^verbatim>\<open>inputValidation:false\<close> on this path. For the two-letter
  query \<^verbatim>\<open>ab\<close> validation fails and the flag returned is \<^verbatim>\<open>true\<close>.
\<close>

theorem invalid_input_flag_counterexample:
  "FinancialQuerySchema (rawPrompt (PlainString ''ab''))
     = Inl [''Query must contain at least 3 characters'']
   \<and> success (returned (analyzeFinancialDataAction (sampleWorld (Responds ''ok''))
        (PlainString ''ab''))) = False
   \<and> inputValidation (testCoverage (returned (analyzeFinancialDataAction
        (sampleWorld (Responds ''ok'')) (PlainString ''ab'')))) \<noteq> False"
  by (simp add: analyzeFinancialDataAction_def FinancialQuerySchema_cases sampleWorld_def
      Let_def)

section \<open>The envelope on each path\<close>

text \<open>
  C7. When the credential is absent from the environment, the function returns, for every
  input, \<^verbatim>\<open>success:false\<close> with the configuration-error message and all three coverage
  flags false, and sends nothing to the model.
\<close>

theorem missing_credential_fails_fast:
  assumes "GEMINI_API_KEY w = None"
  shows "returned (analyzeFinancialDataAction w formData) =
           \<lparr>success = False, data = None,
            error = Some ''AI service configuration error. Please contact system administrator.'',
            testCoverage = \<lparr>inputValidation = False, apiResponse = False, dataParsing = False\<rparr>,
            timestamp = Date_now w, requestId = generateRequestId w\<rparr>
         \<and> outbound (analyzeFinancialDataAction w formData) = []"
  using assms by (simp add: analyzeFinancialDataAction_def)

theorem missing_credential_fails_fast_witness:
  "GEMINI_API_KEY (sampleWorld (Responds ''ok'') \<lparr>GEMINI_API_KEY := None\<rparr>) = None
   \<and> returned (analyzeFinancialDataAction
        (sampleWorld (Responds ''ok'') \<lparr>GEMINI_API_KEY := None\<rparr>) (PlainString ''NVDA outlook'')) =
       \<lparr>success = False, data = None,
        error = Some ''AI service configuration error. Please contact system administrator.'',
        testCoverage = \<lparr>inputValidation = False, apiResponse = False, dataParsing = False\<rparr>,
        timestamp = 1, requestId = ''req_1_abc''\<rparr>
   \<and> outbound (analyzeFinancialDataAction
        (sampleWorld (Responds ''ok'') \<lparr>GEMINI_API_KEY := None\<rparr>) (PlainString ''NVDA outlook'')) = []"
proof -
  have k: "GEMINI_API_KEY (sampleWorld (Responds ''ok'') \<lparr>GEMINI_API_KEY := None\<rparr>) = None"
    by simp
  show ?thesis
    using missing_credential_fails_fast [OF k, of "PlainString ''NVDA outlook''"]
    by (simp add: sampleWorld_def)
qed

text \<open>
  C5. For an input that passes validation, a failure of the call to the model (an
  exception of any kind, or a completion that is empty or only whitespace) gives
  \<^verbatim>\<open>success:false\<close>, the fixed service-unavailable message, and the flags
  \<^verbatim>\<open>inputValidation:true\<close>, \<^verbatim>\<open>apiResponse:false\<close>, \<^verbatim>\<open>dataParsing:false\<close>. The cause goes
  to the console and is no part of the value returned.
\<close>

theorem upstream_failure_is_generic:
  assumes key: "GEMINI_API_KEY w = Some apiKey" "apiKey \<noteq> []"
    and valid: "FinancialQuerySchema (rawPrompt formData) = Inr prompt"
    and fails: "case generateContent w (''User Query: '' @ prompt) of
                  Throws msg \<Rightarrow> True
                | Responds responseText \<Rightarrow> trim responseText = []"
  shows "returned (analyzeFinancialDataAction w formData) =
           \<lparr>success = False, data = None,
            error = Some ''Analysis service temporarily unavailable. Please try again.'',
            testCoverage = \<lparr>inputValidation = True, apiResponse = False, dataParsing = False\<rparr>,
            timestamp = Date_now w, requestId = generateRequestId w\<rparr>
         \<and> outbound (analyzeFinancialDataAction w formData) = [''User Query: '' @ prompt]
         \<and> console (analyzeFinancialDataAction w formData) =
             [ErrorFatal (case generateContent w (''User Query: '' @ prompt) of
                            Throws msg \<Rightarrow> msg
                          | Responds responseText \<Rightarrow> ''Empty response received from AI service'')]"
  using assms
  by (auto simp: analyzeFinancialDataAction_def serviceUnavailable_def Let_def
      split: completion.splits)

lemma trim_NVDA_outlook: "trim ''NVDA outlook'' = ''NVDA outlook''"
  by (simp add: trim_def isWhiteSpace_def)

lemma valid_NVDA_outlook:
  "FinancialQuerySchema (rawPrompt (PlainString ''NVDA outlook'')) = Inr ''NVDA outlook''"
  by (simp add: FinancialQuerySchema_cases trim_NVDA_outlook)

theorem upstream_failure_is_generic_witness:
  "returned (analyzeFinancialDataAction (sampleWorld (Throws ''429 quota exceeded''))
      (PlainString ''NVDA outlook'')) =
     \<lparr>success = False, data = None,
      error = Some ''Analysis service temporarily unavailable. Please try again.'',
      testCoverage = \<lparr>inputValidation = True, apiResponse = False, dataParsing = False\<rparr>,
      timestamp = 1, requestId = ''req_1_abc''\<rparr>
   \<and> console (analyzeFinancialDataAction (sampleWorld (Throws ''429 quota exceeded''))
      (PlainString ''NVDA outlook'')) = [ErrorFatal ''429 quota exceeded'']
   \<and> returned (analyzeFinancialDataAction (sampleWorld (Responds '' ''))
      (PlainString ''NVDA outlook'')) =
     \<lparr>success = False, data = None,
      error = Some ''Analysis service temporarily unavailable. Please try again.'',
      testCoverage = \<lparr>inputValidation = True, apiResponse = False, dataParsing = False\<rparr>,
      timestamp = 1, requestId = ''req_1_abc''\<rparr>"
proof -
  have k: "GEMINI_API_KEY (sampleWorld r) = Some ''test-key''" for r
    by (simp add: sampleWorld_def)
  have ne: "''test-key'' \<noteq> []" by simp
  have f1: "case generateContent (sampleWorld (Throws ''429 quota exceeded''))
                 (''User Query: '' @ ''NVDA outlook'') of
              Throws msg \<Rightarrow> True | Responds responseText \<Rightarrow> trim responseText = []"
    by (simp add: sampleWorld_def)
  have f2: "case generateContent (sampleWorld (Responds '' ''))
                 (''User Query: '' @ ''NVDA outlook'') of
              Throws msg \<Rightarrow> True | Responds responseText \<Rightarrow> trim responseText = []"
    by (simp add: sampleWorld_def trim_def isWhiteSpace_def)
  show ?thesis
    using upstream_failure_is_generic [OF k ne valid_NVDA_outlook f1]
      upstream_failure_is_generic [OF k ne valid_NVDA_outlook f2]
    by (simp add: sampleWorld_def)
qed

text \<open>
  C6. When the call to the model returns text that is not empty after trimming, and the
  embedded payload is absent (no match, or an empty capture), is not parsable, or fails
  \<^verbatim>\<open>ChartSchema\<close>, the function returns \<^verbatim>\<open>success:true\<close> with \<^verbatim>\<open>dataParsing:false\<close>,
  and \<^verbatim>\<open>data\<close> is the response text as received, the delimited part included.
\<close>

theorem bad_payload_is_not_fatal:
  assumes key: "GEMINI_API_KEY w = Some apiKey" "apiKey \<noteq> []"
    and valid: "FinancialQuerySchema (rawPrompt formData) = Inr prompt"
    and resp: "generateContent w (''User Query: '' @ prompt) = Responds responseText"
    and nonempty: "trim responseText \<noteq> []"
    and bad: "case dataMatch responseText of
                None \<Rightarrow> True
              | Some m \<Rightarrow> m = [] \<or>
                  (case JSON_parse w (cleanedJson m) of
                     None \<Rightarrow> True
                   | Some parsedData \<Rightarrow> \<not> ChartSchema parsedData)"
  shows "returned (analyzeFinancialDataAction w formData) =
           \<lparr>success = True, data = Some responseText, error = None,
            testCoverage = \<lparr>inputValidation = True, apiResponse = True, dataParsing = False\<rparr>,
            timestamp = Date_now w, requestId = generateRequestId w\<rparr>"
proof -
  have ne: "responseText \<noteq> []"
    using nonempty by (auto simp: trim_def)
  have chk: "fst (chartDataCheck (JSON_parse w) responseText) = False"
    using bad by (auto simp: chartDataCheck_def split: option.splits)
  show ?thesis
    using key valid resp nonempty ne chk
    by (simp add: analyzeFinancialDataAction_def Let_def case_prod_beta)
qed

lemma dataMatch_not_json: "dataMatch ''Summary <data>{not json}</data>'' = Some ''{not json}''"
  by (simp add: dataMatch_def)

lemma cleanedJson_not_json: "cleanedJson ''{not json}'' = ''{not json}''"
  by (simp add: cleanedJson_def trim_def isWhiteSpace_def)

lemma sampleParse_not_json: "sampleParse ''{not json}'' = None"
  by (simp add: sampleParse_def sampleDocs_def trendDoc_def partialDoc_def pieDoc_def)

theorem bad_payload_is_not_fatal_witness:
  "returned (analyzeFinancialDataAction
      (sampleWorld (Responds ''Summary <data>{not json}</data>'')) (PlainString ''NVDA outlook'')) =
     \<lparr>success = True, data = Some ''Summary <data>{not json}</data>'', error = None,
      testCoverage = \<lparr>inputValidation = True, apiResponse = True, dataParsing = False\<rparr>,
      timestamp = 1, requestId = ''req_1_abc''\<rparr>"
proof -
  let ?w = "sampleWorld (Responds ''Summary <data>{not json}</data>'')"
  have k: "GEMINI_API_KEY ?w = Some ''test-key''"
    by (simp add: sampleWorld_def)
  have ne: "''test-key'' \<noteq> []" by simp
  have r: "generateContent ?w (''User Query: '' @ ''NVDA outlook'')
      = Responds ''Summary <data>{not json}</data>''"
    by (simp add: sampleWorld_def)
  have t: "trim ''Summary <data>{not json}</data>'' \<noteq> []"
    by (simp add: trim_def isWhiteSpace_def)
  have p: "JSON_parse ?w = sampleParse"
    by (simp add: sampleWorld_def)
  have b: "case dataMatch ''Summary <data>{not json}</data>'' of
             None \<Rightarrow> True
           | Some m \<Rightarrow> m = [] \<or>
               (case JSON_parse ?w (cleanedJson m) of
                  None \<Rightarrow> True
                | Some parsedData \<Rightarrow> \<not> ChartSchema parsedData)"
    by (simp only: dataMatch_not_json p cleanedJson_not_json sampleParse_not_json option.case
        simp_thms)
  show ?thesis
    using bad_payload_is_not_fatal [OF k ne valid_NVDA_outlook r t b]
    by (simp add: sampleWorld_def)
qed

text \<open>
  C9. On every path the envelope returned satisfies: \<^verbatim>\<open>dataParsing\<close> implies
  \<^verbatim>\<open>apiResponse\<close>, \<^verbatim>\<open>apiResponse\<close> implies \<^verbatim>\<open>inputValidation\<close>, and \<^verbatim>\<open>apiResponse\<close>
  equals \<^verbatim>\<open>success\<close>.
\<close>

theorem coverage_flags_ordered:
  "(dataParsing (testCoverage (returned (analyzeFinancialDataAction w formData))) \<longrightarrow>
      apiResponse (testCoverage (returned (analyzeFinancialDataAction w formData))))
   \<and> (apiResponse (testCoverage (returned (analyzeFinancialDataAction w formData))) \<longrightarrow>
      inputValidation (testCoverage (returned (analyzeFinancialDataAction w formData))))
   \<and> apiResponse (testCoverage (returned (analyzeFinancialDataAction w formData)))
       = success (returned (analyzeFinancialDataAction w formData))"
  by (simp add: analyzeFinancialDataAction_def serviceUnavailable_def Let_def
      split: sum.split completion.split prod.split)

lemma dataMatch_trend_report:
  \<open>dataMatch
     ''Report <data>{"type":"trend","items":[{"name":"Q1","value":10},{"name":"Q2","value":12}]}</data>''
   = Some ''{"type":"trend","items":[{"name":"Q1","value":10},{"name":"Q2","value":12}]}''\<close>
  by (simp add: dataMatch_def)

lemma cleanedJson_trend:
  \<open>cleanedJson ''{"type":"trend","items":[{"name":"Q1","value":10},{"name":"Q2","value":12}]}''
   = ''{"type":"trend","items":[{"name":"Q1","value":10},{"name":"Q2","value":12}]}''\<close>
  by (simp add: cleanedJson_def trim_def isWhiteSpace_def)

lemma sampleParse_trend:
  \<open>sampleParse ''{"type":"trend","items":[{"name":"Q1","value":10},{"name":"Q2","value":12}]}''
   = Some (JObject [(''type'', JString ''trend''), (''items'', JArray [itemQ1, itemQ2])])\<close>
  by (simp add: sampleParse_def sampleDocs_def trendDoc_def partialDoc_def pieDoc_def)

lemma chartDataCheck_trend_report:
  \<open>chartDataCheck sampleParse
     ''Report <data>{"type":"trend","items":[{"name":"Q1","value":10},{"name":"Q2","value":12}]}</data>''
   = (True, False)\<close>
  unfolding chartDataCheck_def dataMatch_trend_report
  by (simp add: cleanedJson_trend sampleParse_trend itemQ1_def itemQ2_def)

theorem coverage_flags_ordered_witness:
  \<open>dataParsing (testCoverage (returned (analyzeFinancialDataAction
      (sampleWorld (Responds
        ''Report <data>{"type":"trend","items":[{"name":"Q1","value":10},{"name":"Q2","value":12}]}</data>''))
      (PlainString ''NVDA outlook''))))
   \<and> apiResponse (testCoverage (returned (analyzeFinancialDataAction
      (sampleWorld (Responds
        ''Report <data>{"type":"trend","items":[{"name":"Q1","value":10},{"name":"Q2","value":12}]}</data>''))
      (PlainString ''NVDA outlook''))))
   \<and> inputValidation (testCoverage (returned (analyzeFinancialDataAction
      (sampleWorld (Responds
        ''Report <data>{"type":"trend","items":[{"name":"Q1","value":10},{"name":"Q2","value":12}]}</data>''))
      (PlainString ''NVDA outlook''))))
   \<and> success (returned (analyzeFinancialDataAction
      (sampleWorld (Responds
        ''Report <data>{"type":"trend","items":[{"name":"Q1","value":10},{"name":"Q2","value":12}]}</data>''))
      (PlainString ''NVDA outlook'')))\<close>
proof -
  let ?t = \<open>''Report <data>{"type":"trend","items":[{"name":"Q1","value":10},{"name":"Q2","value":12}]}</data>''\<close>
  have ne: "?t \<noteq> []" by simp
  have tr: "trim ?t \<noteq> []"
    by (simp add: trim_def isWhiteSpace_def)
  have dp: "dataParsing (testCoverage (returned (analyzeFinancialDataAction
      (sampleWorld (Responds ?t)) (PlainString ''NVDA outlook''))))"
    using valid_NVDA_outlook tr
    by (simp add: analyzeFinancialDataAction_def sampleWorld_def chartDataCheck_trend_report
        del: list.simps)
  show ?thesis
    using coverage_flags_ordered [of "sampleWorld (Responds ?t)" "PlainString ''NVDA outlook''"] dp
    by blast
qed

section \<open>The history\<close>

lemma take_append_Cons_take:
  "take n (ys @ x # take (n - 1) h) = take n (ys @ x # h)"
proof (cases "n - length ys")
  case 0
  then show ?thesis by simp
next
  case (Suc k)
  then have "min k (n - 1) = k" by simp
  with Suc show ?thesis by simp
qed

lemma appendAll_general:
  "length h \<le> MAX_HISTORY_ITEMS \<Longrightarrow>
   appendAll newItems h = take MAX_HISTORY_ITEMS (rev newItems @ h)"
proof (induction newItems arbitrary: h)
  case Nil
  then show ?case by (simp add: appendAll_def)
next
  case (Cons x xs)
  have len: "length (appendHistory x h) \<le> MAX_HISTORY_ITEMS"
    by (simp add: appendHistory_def MAX_HISTORY_ITEMS_def)
  have "appendAll (x # xs) h = appendAll xs (appendHistory x h)"
    by (simp add: appendAll_def)
  also have "\<dots> = take MAX_HISTORY_ITEMS (rev xs @ appendHistory x h)"
    by (rule Cons.IH [OF len])
  also have "\<dots> = take MAX_HISTORY_ITEMS (rev xs @ x # h)"
    unfolding appendHistory_def by (rule take_append_Cons_take)
  finally show ?case by simp
qed

text \<open>
  C4. After any sequence of appends to an empty history, the history holds at most 50
  items, the newest first: it is the reversed sequence of the appended items cut to its
  first 50, so the items lost are the oldest. After 60 appends it holds exactly the 50
  most recent items.
\<close>

theorem history_capped_newest_first:
  "appendAll newItems [] = take 50 (rev newItems)
   \<and> length (appendAll newItems []) = min (length newItems) 50
   \<and> appendAll newItems [] = rev (drop (length newItems - 50) newItems)
   \<and> (length newItems = 60 \<longrightarrow>
        length (appendAll newItems []) = 50 \<and> appendAll newItems [] = rev (drop 10 newItems))"
proof -
  have eq: "appendAll newItems [] = take 50 (rev newItems)"
    using appendAll_general [of "[]" newItems] by (simp add: MAX_HISTORY_ITEMS_def)
  have dr: "take 50 (rev newItems) = rev (drop (length newItems - 50) newItems)"
    by (simp add: take_rev)
  show ?thesis
    using eq dr by auto
qed

theorem history_capped_newest_first_witness:
  "length (map sampleItem [0..<60]) = 60
   \<and> length (appendAll (map sampleItem [0..<60]) []) = 50
   \<and> appendAll (map sampleItem [0..<60]) [] = rev (drop 10 (map sampleItem [0..<60]))"
proof -
  have l: "length (map sampleItem [0..<60]) = 60"
    by (simp only: length_map length_upt diff_zero)
  from history_capped_newest_first [of "map sampleItem [0..<60]"] l
  show ?thesis by blast
qed

lemma includes_str_sublist: "includes_str s sub \<longleftrightarrow> sublist sub s"
  by (induction s) (simp_all add: sublist_Cons_right)

lemma includes_str_empty: "includes_str s []"
  by (cases s) simp_all

lemma lowerChar_idem: "lowerChar (lowerChar c) = lowerChar c"
  unfolding lowerChar_def Let_def by (simp add: of_char_of)

lemma toLowerCase_idem: "toLowerCase (toLowerCase s) = toLowerCase s"
  by (simp add: toLowerCase_def lowerChar_idem)

text \<open>
  C8. Searching with the empty string returns the whole history. Searching keeps the
  items whose lower-cased query contains the lower-cased search text as a contiguous run,
  in the order of the history; the result is the same for two search texts that differ
  only in case. An item with the query \<^verbatim>\<open>Test NVDA\<close> is found by \<^verbatim>\<open>nvda\<close>.
  The search is a function of the history and leaves it as it is.
\<close>

theorem search_case_insensitive_filter:
  "filteredHistory history [] = history
   \<and> filteredHistory history s =
       filter (\<lambda>item. sublist (toLowerCase s) (toLowerCase (query item))) history
   \<and> subseq (filteredHistory history s) history
   \<and> filteredHistory history (toLowerCase s) = filteredHistory history s
   \<and> (toLowerCase s = toLowerCase s' \<longrightarrow> filteredHistory history s' = filteredHistory history s)
   \<and> (\<forall>item \<in> set history. query item = ''Test NVDA'' \<longrightarrow>
        item \<in> set (filteredHistory history ''nvda''))"
proof -
  have a: "filteredHistory history [] = history"
    by (simp add: filteredHistory_def toLowerCase_def includes_str_empty)
  have b: "filteredHistory history s =
       filter (\<lambda>item. sublist (toLowerCase s) (toLowerCase (query item))) history"
    by (simp add: filteredHistory_def includes_str_sublist)
  have c: "subseq (filteredHistory history s) history"
    by (simp add: filteredHistory_def)
  have i: "filteredHistory history (toLowerCase s) = filteredHistory history s"
    by (simp add: filteredHistory_def toLowerCase_idem)
  have d: "toLowerCase s = toLowerCase s' \<longrightarrow> filteredHistory history s' = filteredHistory history s"
    by (simp add: filteredHistory_def)
  have nv: "includes_str (toLowerCase ''Test NVDA'') (toLowerCase ''nvda'')"
    by code_simp
  have e: "\<forall>item \<in> set history. query item = ''Test NVDA'' \<longrightarrow>
        item \<in> set (filteredHistory history ''nvda'')"
    using nv by (simp add: filteredHistory_def)
  from a b c i d e show ?thesis by blast
qed

theorem search_case_insensitive_filter_witness:
  "toLowerCase ''nvda'' = toLowerCase ''NVDA''
   \<and> filteredHistory (appendHistory (sampleItem 1) []) ''NVDA''
       = filteredHistory (appendHistory (sampleItem 1) []) ''nvda''
   \<and> sampleItem 1 \<in> set (appendHistory (sampleItem 1) [])
   \<and> query (sampleItem 1) = ''Test NVDA''
   \<and> sampleItem 1 \<in> set (filteredHistory (appendHistory (sampleItem 1) []) ''nvda'')"
proof -
  have l: "toLowerCase ''nvda'' = toLowerCase ''NVDA''" by code_simp
  have m: "sampleItem 1 \<in> set (appendHistory (sampleItem 1) [])"
    by (simp add: appendHistory_def)
  have q: "query (sampleItem 1) = ''Test NVDA''"
    by (simp add: sampleItem_def)
  show ?thesis
    using search_case_insensitive_filter
      [of "appendHistory (sampleItem 1) []" "''nvda''" "''NVDA''"] l m q
    by blast
qed

section \<open>The first delimited block\<close>

lemma no_straddle:
  assumes "p \<notin> set ps" and "prefix (p # ps) (pre @ p # ps @ rest)"
  shows "pre = [] \<or> prefix (p # ps) pre"
proof -
  from assms(2) consider "prefix (p # ps) pre"
    | us where "p # ps = pre @ us" "prefix us (p # ps @ rest)"
    by (auto simp: prefix_append)
  then show ?thesis
  proof cases
    case 1
    then show ?thesis by simp
  next
    case 2
    show ?thesis
    proof (cases pre)
      case Nil
      then show ?thesis by simp
    next
      case (Cons a pre')
      with 2(1) have ps: "ps = pre' @ us" by simp
      show ?thesis
      proof (cases us)
        case Nil
        with 2(1) show ?thesis by simp
      next
        case (Cons u us')
        with 2(2) have "u = p" by simp
        with Cons ps have "p \<in> set ps" by simp
        with assms(1) show ?thesis by simp
      qed
    qed
  qed
qed

lemma afterFirst_leftmost:
  assumes "p \<notin> set ps"
  shows "\<not> includes_str pre (p # ps) \<Longrightarrow> afterFirst (p # ps) (pre @ p # ps @ rest) = Some rest"
proof (induction pre)
  case Nil
  then show ?case by simp
next
  case (Cons a pre)
  then have np: "\<not> prefix (p # ps) (a # pre)" and ni: "\<not> includes_str pre (p # ps)"
    by simp_all
  have "\<not> prefix (p # ps) ((a # pre) @ p # ps @ rest)"
    using no_straddle [OF assms, of "a # pre" rest] np by blast
  then have "afterFirst (p # ps) ((a # pre) @ p # ps @ rest)
      = afterFirst (p # ps) (pre @ p # ps @ rest)"
    by (simp only: append_Cons afterFirst.simps if_False)
  with Cons.IH [OF ni] show ?case by (simp only:)
qed

lemma beforeFirst_leftmost:
  assumes "p \<notin> set ps"
  shows "\<not> includes_str body (p # ps) \<Longrightarrow> beforeFirst (p # ps) (body @ p # ps @ rest) = Some body"
proof (induction body)
  case Nil
  then show ?case by simp
next
  case (Cons a body)
  then have np: "\<not> prefix (p # ps) (a # body)" and ni: "\<not> includes_str body (p # ps)"
    by simp_all
  have "\<not> prefix (p # ps) ((a # body) @ p # ps @ rest)"
    using no_straddle [OF assms, of "a # body" rest] np by blast
  then have "beforeFirst (p # ps) ((a # body) @ p # ps @ rest)
      = map_option ((#) a) (beforeFirst (p # ps) (body @ p # ps @ rest))"
    by (simp only: append_Cons beforeFirst.simps if_False)
  with Cons.IH [OF ni] show ?case by (simp only: option.map)
qed

lemma dataMatch_first_block:
  assumes "\<not> includes_str pre ''<data>''" and "\<not> includes_str body ''</data>''"
  shows "dataMatch (pre @ ''<data>'' @ body @ ''</data>'' @ rest) = Some body"
proof -
  have a: "afterFirst ''<data>'' (pre @ ''<data>'' @ (body @ ''</data>'' @ rest))
      = Some (body @ ''</data>'' @ rest)"
    using afterFirst_leftmost [of "CHR ''<''" "''data>''" pre "body @ ''</data>'' @ rest"] assms(1)
    by simp
  have b: "beforeFirst ''</data>'' (body @ ''</data>'' @ rest) = Some body"
    using beforeFirst_leftmost [of "CHR ''<''" "''/data>''" body rest] assms(2)
    by simp
  show ?thesis
    unfolding dataMatch_def using a b by simp
qed

lemma afterFirst_SomeD:
  "afterFirst pat s = Some r \<Longrightarrow> pat \<noteq> [] \<Longrightarrow>
     \<exists>pre. s = pre @ pat @ r \<and> \<not> includes_str pre pat"
proof (induction s)
  case Nil
  then show ?case by simp
next
  case (Cons c cs)
  show ?case
  proof (cases "prefix pat (c # cs)")
    case True
    then obtain zs where zs: "c # cs = pat @ zs" by (auto simp: prefix_def)
    from True Cons.prems(1) have "r = drop (length pat) (c # cs)" by simp
    with zs have "r = zs" by simp
    with zs Cons.prems(2) have "c # cs = [] @ pat @ r \<and> \<not> includes_str [] pat" by simp
    then show ?thesis by blast
  next
    case False
    with Cons.prems have "afterFirst pat cs = Some r" by simp
    from Cons.IH [OF this Cons.prems(2)] obtain pre
      where pre: "cs = pre @ pat @ r" "\<not> includes_str pre pat" by blast
    have "\<not> prefix pat (c # pre)"
    proof
      assume "prefix pat (c # pre)"
      then have "prefix pat ((c # pre) @ pat @ r)" by (rule prefix_prefix)
      with pre(1) False show False by simp
    qed
    with pre have "c # cs = (c # pre) @ pat @ r \<and> \<not> includes_str (c # pre) pat" by simp
    then show ?thesis by blast
  qed
qed

lemma beforeFirst_SomeD:
  "beforeFirst pat s = Some b \<Longrightarrow> pat \<noteq> [] \<Longrightarrow>
     \<exists>rest. s = b @ pat @ rest \<and> \<not> includes_str b pat"
proof (induction s arbitrary: b)
  case Nil
  then show ?case by simp
next
  case (Cons c cs)
  show ?case
  proof (cases "prefix pat (c # cs)")
    case True
    then obtain zs where zs: "c # cs = pat @ zs" by (auto simp: prefix_def)
    from True Cons.prems have "b = []" by simp
    with zs Cons.prems(2) have "c # cs = b @ pat @ zs \<and> \<not> includes_str b pat" by simp
    then show ?thesis by blast
  next
    case False
    with Cons.prems obtain b' where b': "beforeFirst pat cs = Some b'" "b = c # b'"
      by auto
    from Cons.IH [OF b'(1) Cons.prems(2)] obtain rest
      where rest: "cs = b' @ pat @ rest" "\<not> includes_str b' pat" by blast
    have "\<not> prefix pat (c # b')"
    proof
      assume "prefix pat (c # b')"
      then have "prefix pat ((c # b') @ pat @ rest)" by (rule prefix_prefix)
      with rest(1) False show False by simp
    qed
    with rest b'(2) have "c # cs = b @ pat @ rest \<and> \<not> includes_str b pat" by simp
    then show ?thesis by blast
  qed
qed

lemma dataMatch_SomeD:
  assumes "dataMatch text = Some body"
  shows "\<exists>pre rest. text = pre @ ''<data>'' @ body @ ''</data>'' @ rest
     \<and> \<not> includes_str pre ''<data>'' \<and> \<not> includes_str body ''</data>''"
proof -
  from assms obtain r where r: "afterFirst ''<data>'' text = Some r"
    and b: "beforeFirst ''</data>'' r = Some body"
    by (auto simp: dataMatch_def split: option.splits)
  from afterFirst_SomeD [OF r] obtain pre
    where pre: "text = pre @ ''<data>'' @ r" "\<not> includes_str pre ''<data>''" by blast
  from beforeFirst_SomeD [OF b] obtain rest
    where rest: "r = body @ ''</data>'' @ rest" "\<not> includes_str body ''</data>''" by blast
  from pre rest show ?thesis by blast
qed

text \<open>
  C10. When the text holds more than one \<^verbatim>\<open><data>...</data>\<close> block, both the service
  and \<^verbatim>\<open>validateChartData\<close> look at the first one only, cut at the first closing tag:
  a text matches with capture \<open>body\<close> exactly when it is \<open>pre\<close>, the opening tag,
  \<open>body\<close>, the closing tag and a rest, with no opening tag inside \<open>pre\<close> and no closing
  tag inside \<open>body\<close>; and then neither result depends on the rest.
\<close>

theorem only_first_data_block:
  "(dataMatch text = Some body \<longleftrightarrow>
      (\<exists>pre rest. text = pre @ ''<data>'' @ body @ ''</data>'' @ rest
         \<and> \<not> includes_str pre ''<data>'' \<and> \<not> includes_str body ''</data>''))
   \<and> (\<not> includes_str pre ''<data>'' \<and> \<not> includes_str body ''</data>'' \<longrightarrow>
        validateChartData parse (pre @ ''<data>'' @ body @ ''</data>'' @ rest)
          = validateChartData parse (pre @ ''<data>'' @ body @ ''</data>'' @ rest')
        \<and> chartDataCheck parse (pre @ ''<data>'' @ body @ ''</data>'' @ rest)
          = chartDataCheck parse (pre @ ''<data>'' @ body @ ''</data>'' @ rest'))"
proof -
  have chr: "dataMatch text = Some body \<longleftrightarrow>
      (\<exists>pre rest. text = pre @ ''<data>'' @ body @ ''</data>'' @ rest
         \<and> \<not> includes_str pre ''<data>'' \<and> \<not> includes_str body ''</data>'')"
    using dataMatch_SomeD [of "text" body] dataMatch_first_block [of _ body] by blast
  have indep: "validateChartData parse (pre @ ''<data>'' @ body @ ''</data>'' @ rest)
          = validateChartData parse (pre @ ''<data>'' @ body @ ''</data>'' @ rest')
        \<and> chartDataCheck parse (pre @ ''<data>'' @ body @ ''</data>'' @ rest)
          = chartDataCheck parse (pre @ ''<data>'' @ body @ ''</data>'' @ rest')"
    if h: "\<not> includes_str pre ''<data>''" "\<not> includes_str body ''</data>''"
  proof -
    have m: "dataMatch (pre @ ''<data>'' @ body @ ''</data>'' @ r) = Some body" for r
      using h by (rule dataMatch_first_block)
    show ?thesis
      unfolding validateChartData_def chartDataCheck_def m [of rest] m [of rest'] by simp
  qed
  from chr indep show ?thesis by blast
qed

lemma no_open_tag_in_Report: "\<not> includes_str ''Report '' ''<data>''"
  by simp

lemma no_close_tag_in_trendDoc: "\<not> includes_str trendDoc ''</data>''"
  by (simp add: trendDoc_def)

theorem only_first_data_block_witness:
  "\<not> includes_str ''Report '' ''<data>''
   \<and> \<not> includes_str trendDoc ''</data>''
   \<and> dataMatch (''Report '' @ ''<data>'' @ trendDoc @ ''</data>'' @
         '' then <data>'' @ pieDoc @ ''</data>'') = Some trendDoc
   \<and> validateChartData sampleParse (''Report '' @ ''<data>'' @ trendDoc @ ''</data>'' @
         '' then <data>'' @ pieDoc @ ''</data>'')
       = validateChartData sampleParse (''Report '' @ ''<data>'' @ trendDoc @ ''</data>'' @ [])
   \<and> chartDataCheck sampleParse (''Report '' @ ''<data>'' @ trendDoc @ ''</data>'' @
         '' then <data>'' @ pieDoc @ ''</data>'')
       = chartDataCheck sampleParse (''Report '' @ ''<data>'' @ trendDoc @ ''</data>'' @ [])"
  using only_first_data_block
      [of "''Report '' @ ''<data>'' @ trendDoc @ ''</data>'' @ '' then <data>'' @ pieDoc @ ''</data>''"
        trendDoc "''Report ''" sampleParse "'' then <data>'' @ pieDoc @ ''</data>''" "[]"]
    no_open_tag_in_Report no_close_tag_in_trendDoc
  by blast

section \<open>The two chart checks\<close>
















text \<open>
  \<^verbatim>\<open>validateChartData\<close> reads \<^verbatim>\<open>type\<close> for truthiness only: a payload of type \<^verbatim>\<open>pie\<close>
  comes back as a chart, where \<^verbatim>\<open>ChartSchema\<close> refuses it.
\<close>

lemma validateChartData_type_unchecked:
  "validateChartData sampleParse (''<data>'' @ pieDoc @ ''</data>'') =
     Some \<lparr>type = JString ''pie'', items = [itemQ1]\<rparr>
   \<and> fst (chartDataCheck sampleParse (''<data>'' @ pieDoc @ ''</data>'')) = False"
proof -
  have m: "dataMatch (''<data>'' @ pieDoc @ ''</data>'') = Some pieDoc"
    by (simp add: dataMatch_def pieDoc_def)
  have n: "pieDoc \<noteq> []" by (simp add: pieDoc_def)
  have cl: "cleanedJson pieDoc = pieDoc"
    by (simp add: cleanedJson_def trim_def isWhiteSpace_def pieDoc_def)
  have p: "sampleParse pieDoc =
      Some (JObject [(''type'', JString ''pie''), (''items'', JArray [itemQ1])])"
    by (simp add: sampleParse_def sampleDocs_def trendDoc_def partialDoc_def pieDoc_def)
  have f: "filter validItem [itemQ1] = [itemQ1]"
    by (simp add: itemQ1_def)
  have v: "validateChartData sampleParse (''<data>'' @ pieDoc @ ''</data>'') =
      Some \<lparr>type = JString ''pie'', items = [itemQ1]\<rparr>"
    unfolding validateChartData_def m by (simp add: n cl p f Let_def del: filter.simps)
  have c: "fst (chartDataCheck sampleParse (''<data>'' @ pieDoc @ ''</data>'')) = False"
    unfolding chartDataCheck_def m by (simp add: n cl p)
  from v c show ?thesis by simp
qed

text \<open>
  Its filter asks for a \<^verbatim>\<open>name\<close> property and not for a string: an item whose
  \<^verbatim>\<open>name\<close> is \<^verbatim>\<open>null\<close> passes the filter, where \<^verbatim>\<open>ChartSchema\<close> refuses the item.
\<close>

lemma validItem_name_unchecked:
  "validItem (JObject [(''name'', JNull), (''value'', JNumber (Num 1))])
   \<and> \<not> ChartItemSchema (JObject [(''name'', JNull), (''value'', JNumber (Num 1))])"
  by simp

end
